theory Spec2Isabelle
  imports Main "HOL-Library.Sublist"
begin

section \<open>Python values, exceptions and string formatting\<close>

text \<open>
  The service of \<^verbatim>\<open>main.py\<close> glues a vector store and a hosted language model together.
  Python strings are modelled as \<^typ>\<open>string\<close>, the UTF-8 bytes of the text: concatenation,
  joining and the substring relation are the same on bytes and on code points.

  A value of type \<open>exn\<close> is an instance of a subclass of Python's \<^verbatim>\<open>Exception\<close>, which is
  what both \<^verbatim>\<open>except Exception as e\<close> clauses of the source catch. The argument of each
  constructor is the text that \<^verbatim>\<open>str(e)\<close> gives. \<open>LibraryError\<close> stands for whatever the
  store or the model library raises (connection, quota, corrupt index, blocked response).
  Signals that derive from \<^verbatim>\<open>BaseException\<close> only (a keyboard interrupt, an interpreter
  exit) are not exceptions in this sense and are outside the model.
\<close>

datatype exn =
    ValueError string
  | IndexError string
  | TypeError string
  | AttributeError string
  | LibraryError string

fun str_exn :: "exn \<Rightarrow> string" where
  "str_exn (ValueError m) = m"
| "str_exn (IndexError m) = m"
| "str_exn (TypeError m) = m"
| "str_exn (AttributeError m) = m"
| "str_exn (LibraryError m) = m"

text \<open>\<^verbatim>\<open>str(n)\<close> of an integer: its decimal digits, with a minus sign when negative.\<close>

definition digit_char :: "nat \<Rightarrow> char" where
  "digit_char d = ''0123456789'' ! d"

function str_nat :: "nat \<Rightarrow> string" where
  "str_nat n = (if n < 10 then [digit_char n] else str_nat (n div 10) @ [digit_char (n mod 10)])"
  by pat_completeness auto
termination
  by (relation "measure (\<lambda>n. n)") auto

declare str_nat.simps [simp del]

definition str_int :: "int \<Rightarrow> string" where
  "str_int i = (if i < 0 then CHR ''-'' # str_nat (nat (- i)) else str_nat (nat i))"

text \<open>
  A metadata value of the store is a string, an integer, a boolean or a float. The program
  only ever formats such a value into an f-string, so a float is represented by the text
  that \<^verbatim>\<open>str\<close> gives for it (floating-point formatting itself is not modelled).
\<close>

datatype meta_value = MStr string | MInt int | MBool bool | MFloat string

fun str_meta :: "meta_value \<Rightarrow> string" where
  "str_meta (MStr s) = s"
| "str_meta (MInt i) = str_int i"
| "str_meta (MBool b) = (if b then ''True'' else ''False'')"
| "str_meta (MFloat r) = r"

type_synonym metadata = "string \<rightharpoonup> meta_value"

text \<open>\<^verbatim>\<open>f"{meta.get(key, default)}"\<close> with a string default.\<close>

definition meta_get :: "metadata \<Rightarrow> string \<Rightarrow> string \<Rightarrow> string" where
  "meta_get meta key dflt = (case meta key of None \<Rightarrow> dflt | Some v \<Rightarrow> str_meta v)"

text \<open>\<^verbatim>\<open>sep.join(xs)\<close>\<close>

fun join :: "string \<Rightarrow> string list \<Rightarrow> string" where
  "join sep [] = []"
| "join sep [x] = x"
| "join sep (x # y # ys) = x @ sep @ join sep (y # ys)"

text \<open>\<^verbatim>\<open>f"{x}"\<close> for \<^verbatim>\<open>x: Optional[str]\<close>: Python prints \<^verbatim>\<open>None\<close> as the text None.\<close>

fun str_optional :: "string option \<Rightarrow> string" where
  "str_optional None = ''None''"
| "str_optional (Some s) = s"

text \<open>
  \<^verbatim>\<open>xs[0]\<close> where \<^verbatim>\<open>xs\<close> is a list or \<^verbatim>\<open>None\<close>, with the errors CPython raises.
\<close>

fun subscript0 :: "'a list option \<Rightarrow> exn + 'a" where
  "subscript0 None = Inl (TypeError '''NoneType' object is not subscriptable'')"
| "subscript0 (Some []) = Inl (IndexError ''list index out of range'')"
| "subscript0 (Some (x # xs)) = Inr x"

section \<open>The external collaborators\<close>

text \<open>
  What \<^verbatim>\<open>collection.query\<close> returns: the source reads the keys \<^verbatim>\<open>documents\<close> and
  \<^verbatim>\<open>metadatas\<close>, each \<^verbatim>\<open>None\<close> or one inner list per query text. An entry of an inner
  metadata list is a mapping, or \<^verbatim>\<open>None\<close> for a record stored without metadata.
\<close>

record query_result =
  res_documents :: "string list list option"
  res_metadatas :: "metadata option list list option"

text \<open>
  The response object of the model: reading \<^verbatim>\<open>response.text\<close> gives the text or raises
  (a response without usable content).
\<close>

datatype gen_response = GenResponse (response_text: "exn + string")

type_synonym generative_model = "string \<Rightarrow> exn + gen_response"

text \<open>
  \<^verbatim>\<open>collection.query(query_texts=..., n_results=..., include=...)\<close>: the three keyword
  arguments in this order.
\<close>

type_synonym collection_handle = "string list \<Rightarrow> nat \<Rightarrow> string list \<Rightarrow> exn + query_result"

text \<open>
  Every library call of the program is recorded, in order: configuring the model library
  with the key, constructing the model object, opening the store and its collection,
  creating the application (by its title) and registering a route (method and path) at
  start-up; the store query and the model call while a request is handled.
\<close>

datatype event =
    Configure string
  | GenerativeModel string
  | PersistentClient string
  | GetOrCreateCollection string
  | FastAPI string
  | Route string string
  | Query "string list" nat "string list"
  | GenerateContent string

fun is_Query :: "event \<Rightarrow> bool" where
  "is_Query (Query ts k inc) = True"
| "is_Query _ = False"

section \<open>Module initialisation (lines 9 to 19)\<close>

text \<open>
  The libraries as the module sees them: constructing the model object from the configured
  key and a model name, and opening a collection from a path and a collection name.
\<close>

type_synonym chroma_client = "string \<Rightarrow> exn + collection_handle"

record libraries =
  genai_GenerativeModel :: "string \<Rightarrow> string \<Rightarrow> generative_model"
  chromadb_PersistentClient :: "string \<Rightarrow> exn + chroma_client"

record module_globals =
  API_KEY :: string
  model :: generative_model
  collection :: collection_handle

text \<open>
  \<open>environ\<close> is the process environment as \<^verbatim>\<open>os.getenv\<close> reads it on line 10, after
  \<^verbatim>\<open>load_dotenv()\<close>. \<^verbatim>\<open>not API_KEY\<close> holds for \<^verbatim>\<open>None\<close> and for the empty string.
  The result is the module's globals, or the exception that stops the import, with the
  library calls made up to that point. The application object and its two routes (lines 22,
  63 and 72) come last: a request can be served only once they exist.
\<close>

definition module_init ::
    "(string \<rightharpoonup> string) \<Rightarrow> libraries \<Rightarrow> (exn + module_globals) \<times> event list" where
  "module_init environ libs =
     (case environ ''GEMINI_API_KEY'' of
        None \<Rightarrow>
          (Inl (ValueError
             ''GEMINI_API_KEY not found. Please set it in your environment or .env file.''), [])
      | Some k \<Rightarrow>
          if k = [] then
            (Inl (ValueError
               ''GEMINI_API_KEY not found. Please set it in your environment or .env file.''), [])
          else
            (let m = genai_GenerativeModel libs k ''gemini-1.5-flash'';
                 evs = [Configure k, GenerativeModel ''gemini-1.5-flash'',
                        PersistentClient ''recipe_db'']
             in case chromadb_PersistentClient libs ''recipe_db'' of
                  Inl e \<Rightarrow> (Inl e, evs)
                | Inr client \<Rightarrow>
                    (case client ''recipes'' of
                       Inl e \<Rightarrow> (Inl e, evs @ [GetOrCreateCollection ''recipes''])
                     | Inr c \<Rightarrow>
                         (Inr \<lparr>API_KEY = k, model = m, collection = c\<rparr>,
                          evs @ [GetOrCreateCollection ''recipes'', FastAPI ''Chef Gemini RAG API'',
                                 Route ''GET'' ''/'', Route ''POST'' ''/recommend'']))))"

section \<open>The request model (lines 28 to 30)\<close>

record RecipeRequest =
  ingredients :: "string list"
  constraints :: "string option"

text \<open>
  A field of the request body is omitted or given. \<^verbatim>\<open>ingredients: List[str]\<close> has no
  default, so it is required, and it carries no length constraint.
  \<^verbatim>\<open>constraints: Optional[str] = "None"\<close>: an omitted field takes the default, the text
  None; a given one is a string or \<^verbatim>\<open>null\<close>.
\<close>

datatype 'a field = Omitted | Given 'a

datatype validation_error = FieldRequired string

definition RecipeRequest_validate ::
    "string list field \<Rightarrow> string option field \<Rightarrow> validation_error + RecipeRequest" where
  "RecipeRequest_validate ings cons =
     (case ings of
        Omitted \<Rightarrow> Inl (FieldRequired ''ingredients'')
      | Given xs \<Rightarrow>
          Inr \<lparr>ingredients = xs,
               constraints = (case cons of Omitted \<Rightarrow> Some ''None'' | Given c \<Rightarrow> c)\<rparr>)"

section \<open>Prompt construction and generation (lines 33 to 60)\<close>

record recipes_data =
  documents :: "string list"
  metadatas :: "metadata option list"

text \<open>The three lines that one pass of the loop appends, for index \<open>i\<close> (lines 41 to 43).\<close>

definition option_section :: "nat \<Rightarrow> metadata \<Rightarrow> string \<Rightarrow> string" where
  "option_section i meta doc =
     ''\<newline>--- OPTION '' @ str_nat (i + 1) @ '': ''
       @ meta_get meta ''RecipeName'' ''Unknown Recipe'' @ '' ---\<newline>''
     @ ''Cooking Time: '' @ meta_get meta ''TotalTimeInMins'' ''N/A''
       @ '' mins | Servings: '' @ meta_get meta ''Servings'' ''N/A'' @ ''\<newline>''
     @ ''Instructions: '' @ doc @ ''\<newline>''"

text \<open>
  The loop of lines 39 to 43 over \<^verbatim>\<open>enumerate(recipes_data['documents'])\<close>, from index
  \<open>i\<close> with the text accumulated so far. \<^verbatim>\<open>recipes_data['metadatas'][i]\<close> raises
  IndexError past the end of the list, and \<^verbatim>\<open>meta.get\<close> raises AttributeError on
  \<^verbatim>\<open>None\<close>.
\<close>

fun context_loop :: "metadata option list \<Rightarrow> nat \<Rightarrow> string list \<Rightarrow> string \<Rightarrow> exn + string" where
  "context_loop metas i [] context_text = Inr context_text"
| "context_loop metas i (doc # docs) context_text =
     (if i < length metas then
        (case metas ! i of
           None \<Rightarrow> Inl (AttributeError ('''NoneType' object has no attribute 'get'' @ [CHR 0x27]))
         | Some meta \<Rightarrow>
             context_loop metas (Suc i) docs (context_text @ option_section i meta doc))
      else Inl (IndexError ''list index out of range''))"

text \<open>The fixed instruction text of lines 47 to 52, around the two interpolated values.\<close>

definition prompt_head :: "string list \<Rightarrow> string option \<Rightarrow> string" where
  "prompt_head available_ingredients cons =
     ''You are a friendly, expert kitchen assistant. A home cook has: ''
       @ join '', '' available_ingredients @ ''.\<newline>''
     @ ''IMPORTANT DIETARY/EQUIPMENT CONSTRAINTS: '' @ str_optional cons
       @ ''\<newline>\<newline>''
     @ ''Based on their ingredients AND the constraints above, suggest the 3 best matches from the provided database. ''
     @ ''If a recipe uses an ingredient they are allergic to or requires equipment they don't have, ''
     @ ''you MUST modify the steps to accommodate them or explain why a certain substitution was made.\<newline>\<newline>''
     @ ''Don't mention 'searching a database'' @ [CHR 0x27, CHR 0xE2, CHR 0x80, CHR 0x94]
       @ ''just offer your best culinary advice based on these recipes:\<newline>''"

text \<open>Lines 38 to 54: the prompt, or the exception that its construction raises.\<close>

definition build_prompt :: "string list \<Rightarrow> recipes_data \<Rightarrow> string option \<Rightarrow> exn + string" where
  "build_prompt available_ingredients data cons =
     (case context_loop (metadatas data) 0 (documents data) [] of
        Inl e \<Rightarrow> Inl e
      | Inr context_text \<Rightarrow> Inr (prompt_head available_ingredients cons @ context_text))"

text \<open>
  Lines 56 to 60: the guarded call. Both \<^verbatim>\<open>model.generate_content(prompt)\<close> and
  \<^verbatim>\<open>response.text\<close> are inside the \<^verbatim>\<open>try\<close>.
\<close>

definition generate_guarded :: "generative_model \<Rightarrow> string \<Rightarrow> string" where
  "generate_guarded m prompt =
     (case m prompt of
        Inl e \<Rightarrow> ''Error generating content: '' @ str_exn e
      | Inr response \<Rightarrow>
          (case response_text response of
             Inl e \<Rightarrow> ''Error generating content: '' @ str_exn e
           | Inr t \<Rightarrow> t))"

definition format_with_gemini ::
    "generative_model \<Rightarrow> string list \<Rightarrow> recipes_data \<Rightarrow> string option
       \<Rightarrow> (exn + string) \<times> event list" where
  "format_with_gemini m available_ingredients data cons =
     (case build_prompt available_ingredients data cons of
        Inl e \<Rightarrow> (Inl e, [])
      | Inr prompt \<Rightarrow> (Inr (generate_guarded m prompt), [GenerateContent prompt]))"

section \<open>The handler of POST /recommend (lines 72 to 111)\<close>

text \<open>The values of the response dictionaries, and a dictionary as its items in order.\<close>

datatype py_value = PyStr string | PyNone | PyList "string list"

type_synonym response_body = "(string \<times> py_value) list"

fun py_optional :: "string option \<Rightarrow> py_value" where
  "py_optional None = PyNone"
| "py_optional (Some s) = PyStr s"

text \<open>
  The handler returns a dictionary, which the framework sends with status 200, or raises
  \<^verbatim>\<open>HTTPException(status_code, detail)\<close>, which the framework sends with that status.
\<close>

datatype outcome = Returned response_body | HTTPException nat string

fun status_code :: "outcome \<Rightarrow> nat" where
  "status_code (Returned body) = 200"
| "status_code (HTTPException code detail) = code"

definition apology :: response_body where
  "apology = [(''recommendation'',
     PyStr ''I'm sorry, I couldn't find any recipes that match those ingredients in my current database.'')]"

text \<open>\<^verbatim>\<open>not results["documents"] or not results["documents"][0]\<close> (line 87).\<close>

fun no_documents :: "string list list option \<Rightarrow> bool" where
  "no_documents None = True"
| "no_documents (Some []) = True"
| "no_documents (Some (d # ds)) = (d = [])"

text \<open>The body of the \<^verbatim>\<open>try\<close> (lines 79 to 108).\<close>

definition recommend_try ::
    "module_globals \<Rightarrow> RecipeRequest \<Rightarrow> (exn + response_body) \<times> event list" where
  "recommend_try g request =
     (let query_string = join '', '' (ingredients request);
          q = Query [query_string] 3 [''documents'', ''metadatas'']
      in case collection g [query_string] 3 [''documents'', ''metadatas''] of
           Inl e \<Rightarrow> (Inl e, [q])
         | Inr results \<Rightarrow>
             if no_documents (res_documents results) then (Inr apology, [q])
             else
               (case subscript0 (res_documents results) of
                  Inl e \<Rightarrow> (Inl e, [q])
                | Inr docs \<Rightarrow>
                    (case subscript0 (res_metadatas results) of
                       Inl e \<Rightarrow> (Inl e, [q])
                     | Inr metas \<Rightarrow>
                         (case format_with_gemini (model g) (ingredients request)
                                 \<lparr>documents = docs, metadatas = metas\<rparr> (constraints request) of
                            (Inl e, evs) \<Rightarrow> (Inl e, q # evs)
                          | (Inr final_answer, evs) \<Rightarrow>
                              (Inr [(''status'', PyStr ''success''),
                                    (''ingredients_received'', PyList (ingredients request)),
                                    (''constraints_applied'', py_optional (constraints request)),
                                    (''recommendation'', PyStr final_answer)],
                               q # evs)))))"

text \<open>The handler: the \<^verbatim>\<open>try\<close> body under \<^verbatim>\<open>except Exception as e\<close> (lines 110, 111).\<close>

definition recommend_recipes :: "module_globals \<Rightarrow> RecipeRequest \<Rightarrow> outcome \<times> event list" where
  "recommend_recipes g request =
     (case recommend_try g request of
        (Inl e, evs) \<Rightarrow> (HTTPException 500 (''Internal Server Error: '' @ str_exn e), evs)
      | (Inr body, evs) \<Rightarrow> (Returned body, evs))"

text \<open>
  The endpoint: the body is validated into a \<open>RecipeRequest\<close>; a body that fails validation
  is answered by the framework and never reaches the handler.
\<close>

definition post_recommend ::
    "module_globals \<Rightarrow> string list field \<Rightarrow> string option field
       \<Rightarrow> validation_error + outcome \<times> event list" where
  "post_recommend g ings cons =
     (case RecipeRequest_validate ings cons of
        Inl v \<Rightarrow> Inl v
      | Inr request \<Rightarrow> Inr (recommend_recipes g request))"

section \<open>Concrete stores, models and requests\<close>

text \<open>Small inputs on which the theorems below are instantiated.\<close>

definition soup_meta :: metadata where
  "soup_meta = [''RecipeName'' \<mapsto> MStr ''Soup'', ''TotalTimeInMins'' \<mapsto> MInt 45]"

definition answering_model :: generative_model where
  "answering_model prompt = Inr (GenResponse (Inr ''Try the soup.''))"

definition quota_model :: generative_model where
  "quota_model prompt = Inl (LibraryError ''429 quota exceeded'')"

definition fixed_store :: "query_result \<Rightarrow> collection_handle" where
  "fixed_store r query_texts n_results include = Inr r"

definition globals_with :: "collection_handle \<Rightarrow> generative_model \<Rightarrow> module_globals" where
  "globals_with c m = \<lparr>API_KEY = ''key'', model = m, collection = c\<rparr>"

definition no_match_results :: query_result where
  "no_match_results = \<lparr>res_documents = Some [[]], res_metadatas = Some [[]]\<rparr>"

definition durian_request :: RecipeRequest where
  "durian_request = \<lparr>ingredients = [''durian'', ''unobtainium''], constraints = Some ''None''\<rparr>"

definition two_recipes :: query_result where
  "two_recipes = \<lparr>res_documents = Some [[''Boil it.'', ''Fry it.'']],
                  res_metadatas = Some [[Some soup_meta, Some Map.empty]]\<rparr>"

definition chicken_request :: RecipeRequest where
  "chicken_request = \<lparr>ingredients = [''chicken''], constraints = Some ''no dairy, no oven''\<rparr>"

definition short_metadatas :: query_result where
  "short_metadatas = \<lparr>res_documents = Some [[''Boil it.'', ''Fry it.'']],
                      res_metadatas = Some [[Some soup_meta]]\<rparr>"

definition no_metadatas :: query_result where
  "no_metadatas = \<lparr>res_documents = Some [[''Boil it.'']], res_metadatas = None\<rparr>"

definition missing_metadata :: query_result where
  "missing_metadata = \<lparr>res_documents = Some [[''Boil it.'']], res_metadatas = Some [[None]]\<rparr>"

definition unreachable_store :: collection_handle where
  "unreachable_store query_texts n_results include = Inl (LibraryError ''store unavailable'')"

definition working_libraries :: libraries where
  "working_libraries =
     \<lparr>genai_GenerativeModel = (\<lambda>key name. answering_model),
      chromadb_PersistentClient = (\<lambda>path. Inr (\<lambda>name. Inr (fixed_store two_recipes)))\<rparr>"

section \<open>The degraded response\<close>

lemma recommend_try_no_documents:
  assumes "collection g [join '', '' (ingredients request)] 3 [''documents'', ''metadatas'']
             = Inr results"
      and "no_documents (res_documents results)"
  shows "recommend_try g request =
           (Inr apology, [Query [join '', '' (ingredients request)] 3 [''documents'', ''metadatas'']])"
  using assms by (simp add: recommend_try_def)

text \<open>
  C1. When the store answers the query with an empty document list (the test of line 87:
  \<^verbatim>\<open>None\<close>, no inner list, or an empty first inner list), the handler returns exactly the
  dictionary with the single key \<^verbatim>\<open>recommendation\<close> and the fixed apology text, and the
  only call that left the program is the store query: the model is not invoked.
\<close>

theorem empty_retrieval_apology:
  assumes "collection g [join '', '' (ingredients request)] 3 [''documents'', ''metadatas'']
             = Inr results"
      and "no_documents (res_documents results)"
  shows "recommend_recipes g request =
           (Returned [(''recommendation'',
              PyStr ''I'm sorry, I couldn't find any recipes that match those ingredients in my current database.'')],
            [Query [join '', '' (ingredients request)] 3 [''documents'', ''metadatas'']])"
  using recommend_try_no_documents [OF assms] by (simp add: recommend_recipes_def apology_def)

theorem empty_retrieval_apology_witness:
  "collection (globals_with (fixed_store no_match_results) answering_model)
      [join '', '' (ingredients durian_request)] 3 [''documents'', ''metadatas''] = Inr no_match_results
   \<and> no_documents (res_documents no_match_results)
   \<and> recommend_recipes (globals_with (fixed_store no_match_results) answering_model) durian_request =
       (Returned [(''recommendation'',
          PyStr ''I'm sorry, I couldn't find any recipes that match those ingredients in my current database.'')],
        [Query [''durian, unobtainium''] 3 [''documents'', ''metadatas'']])"
proof -
  have q: "collection (globals_with (fixed_store no_match_results) answering_model)
      [join '', '' (ingredients durian_request)] 3 [''documents'', ''metadatas''] = Inr no_match_results"
    by (simp add: globals_with_def fixed_store_def)
  have n: "no_documents (res_documents no_match_results)"
    by (simp add: no_match_results_def)
  have j: "join '', '' (ingredients durian_request) = ''durian, unobtainium''"
    by (simp add: durian_request_def)
  from empty_retrieval_apology [OF q n] q n j show ?thesis by simp
qed

section \<open>The prompt\<close>

lemma sublist_in_append_right: "sublist xs zs \<Longrightarrow> sublist xs (ys @ zs)"
  by (auto simp: sublist_def) (metis append.assoc)

lemma sublist_nth_concat: "i < length xss \<Longrightarrow> sublist (xss ! i) (concat xss)"
proof -
  assume "i < length xss"
  then have "xss = take i xss @ xss ! i # drop (Suc i) xss"
    by (rule id_take_nth_drop)
  then have "concat xss = concat (take i xss) @ xss ! i @ concat (drop (Suc i) xss)"
    by (metis concat.simps(2) concat_append)
  then show ?thesis
    by (metis sublist_appendI)
qed

lemma option_section_name:
  "sublist (meta_get meta ''RecipeName'' ''Unknown Recipe'') (option_section i meta doc)"
  unfolding option_section_def
  by (intro sublist_in_append_right sublist_append_rightI)

lemma option_section_doc: "sublist doc (option_section i meta doc)"
  unfolding option_section_def
  by (intro sublist_in_append_right sublist_append_rightI)

lemma option_section_time:
  "sublist (meta_get meta ''TotalTimeInMins'' ''N/A'') (option_section i meta doc)"
  unfolding option_section_def
  by (intro sublist_in_append_right sublist_append_rightI)

lemma option_section_servings:
  "sublist (meta_get meta ''Servings'' ''N/A'') (option_section i meta doc)"
  unfolding option_section_def
  by (intro sublist_in_append_right sublist_append_rightI)

lemma prompt_head_ingredients: "sublist (join '', '' ings) (prompt_head ings cons)"
  unfolding prompt_head_def
  by (intro sublist_in_append_right sublist_append_rightI)

lemma prompt_head_constraints: "sublist (str_optional cons) (prompt_head ings cons)"
  unfolding prompt_head_def
  by (intro sublist_in_append_right sublist_append_rightI)

text \<open>
  What the loop has done when it returns: every document has a metadata mapping at its
  index, and the text is the accumulated text followed by one section per document, in the
  order of the documents.
\<close>

lemma context_loop_built:
  "context_loop metas i docs acc = Inr t \<Longrightarrow> i \<le> length metas \<Longrightarrow>
     \<exists>sections. t = acc @ concat sections \<and> length sections = length docs
       \<and> i + length docs \<le> length metas
       \<and> (\<forall>j<length docs. \<exists>meta. metas ! (i + j) = Some meta
              \<and> sections ! j = option_section (i + j) meta (docs ! j))"
proof (induction docs arbitrary: i acc)
  case Nil
  then show ?case by simp
next
  case (Cons doc docs)
  from Cons.prems(1) have lt: "i < length metas"
    by (simp split: if_splits)
  then have le: "Suc i \<le> length metas" by simp
  from Cons.prems(1) lt obtain meta where m: "metas ! i = Some meta"
    and r: "context_loop metas (Suc i) docs (acc @ option_section i meta doc) = Inr t"
    by (cases "metas ! i") simp_all
  from Cons.IH [OF r le] obtain sections where
    t: "t = (acc @ option_section i meta doc) @ concat sections"
    and l: "length sections = length docs"
    and b: "Suc i + length docs \<le> length metas"
    and e: "\<forall>j<length docs. \<exists>meta. metas ! (Suc i + j) = Some meta
              \<and> sections ! j = option_section (Suc i + j) meta (docs ! j)"
    by (elim exE conjE)
  let ?sections = "option_section i meta doc # sections"
  have "\<exists>meta'. metas ! (i + j) = Some meta'
              \<and> ?sections ! j = option_section (i + j) meta' ((doc # docs) ! j)"
    if "j < length (doc # docs)" for j
  proof (cases j)
    case 0
    then show ?thesis using m by simp
  next
    case (Suc k)
    then have "k < length docs" using that by simp
    with e show ?thesis using Suc by simp
  qed
  then have "\<forall>j<length (doc # docs). \<exists>meta'. metas ! (i + j) = Some meta'
              \<and> ?sections ! j = option_section (i + j) meta' ((doc # docs) ! j)"
    by (intro allI impI)
  moreover have "t = acc @ concat ?sections" using t by simp
  moreover have "length ?sections = length (doc # docs)" using l by simp
  moreover have "i + length (doc # docs) \<le> length metas" using b by simp
  ultimately show ?case by (intro exI conjI)
qed

text \<open>
  Whenever prompt construction succeeds, on any documents and metadata lists, the prompt is
  the instruction text followed by one section per document in store order. It contains
  the ingredients joined with a comma and a space, and the constraints string. The section
  of a document contains the value of \<^verbatim>\<open>RecipeName\<close>, or the text Unknown Recipe when the
  key is absent from its mapping; the values of \<^verbatim>\<open>TotalTimeInMins\<close> and \<^verbatim>\<open>Servings\<close>,
  each replaced by the text N/A when absent; and the document itself.
\<close>

lemma build_prompt_built:
  assumes "build_prompt ings data (Some cons) = Inr p"
  shows "\<exists>sections.
           p = prompt_head ings (Some cons) @ concat sections
         \<and> length sections = length (documents data)
         \<and> length (documents data) \<le> length (metadatas data)
         \<and> sublist (join '', '' ings) p
         \<and> sublist cons p
         \<and> (\<forall>i<length (documents data). \<exists>meta.
               metadatas data ! i = Some meta
             \<and> sublist (sections ! i) p
             \<and> sublist (case meta ''RecipeName'' of
                          None \<Rightarrow> ''Unknown Recipe'' | Some v \<Rightarrow> str_meta v) (sections ! i)
             \<and> sublist (case meta ''TotalTimeInMins'' of
                          None \<Rightarrow> ''N/A'' | Some v \<Rightarrow> str_meta v) (sections ! i)
             \<and> sublist (case meta ''Servings'' of
                          None \<Rightarrow> ''N/A'' | Some v \<Rightarrow> str_meta v) (sections ! i)
             \<and> sublist (documents data ! i) (sections ! i))"
proof -
  from assms obtain t where
    c: "context_loop (metadatas data) 0 (documents data) [] = Inr t"
    and p: "p = prompt_head ings (Some cons) @ t"
    by (auto simp: build_prompt_def split: sum.splits)
  from context_loop_built [OF c] obtain sections where
    t: "t = concat sections"
    and l: "length sections = length (documents data)"
    and b: "length (documents data) \<le> length (metadatas data)"
    and e: "\<forall>j<length (documents data). \<exists>meta. metadatas data ! j = Some meta
              \<and> sections ! j = option_section j meta (documents data ! j)"
    by auto
  have ing: "sublist (join '', '' ings) p"
    unfolding p
    using prompt_head_ingredients [of ings "Some cons"]
    by (metis sublist_append_rightI sublist_order.order.trans)
  have con: "sublist cons p"
    unfolding p
    using prompt_head_constraints [of "Some cons" ings]
    by (metis str_optional.simps(2) sublist_append_rightI sublist_order.order.trans)
  have each: "\<exists>meta.
               metadatas data ! i = Some meta
             \<and> sublist (sections ! i) p
             \<and> sublist (case meta ''RecipeName'' of
                          None \<Rightarrow> ''Unknown Recipe'' | Some v \<Rightarrow> str_meta v) (sections ! i)
             \<and> sublist (case meta ''TotalTimeInMins'' of
                          None \<Rightarrow> ''N/A'' | Some v \<Rightarrow> str_meta v) (sections ! i)
             \<and> sublist (case meta ''Servings'' of
                          None \<Rightarrow> ''N/A'' | Some v \<Rightarrow> str_meta v) (sections ! i)
             \<and> sublist (documents data ! i) (sections ! i)"
    if i: "i < length (documents data)" for i
  proof -
    from e [rule_format, OF i] obtain meta where m: "metadatas data ! i = Some meta"
      and s: "sections ! i = option_section i meta (documents data ! i)"
      by (elim exE conjE)
    have "sublist (sections ! i) (concat sections)"
      using i l by (simp add: sublist_nth_concat)
    then have inp: "sublist (sections ! i) p"
      unfolding p t by (rule sublist_in_append_right)
    have "sublist (sections ! i) p
             \<and> sublist (case meta ''RecipeName'' of
                          None \<Rightarrow> ''Unknown Recipe'' | Some v \<Rightarrow> str_meta v) (sections ! i)
             \<and> sublist (case meta ''TotalTimeInMins'' of
                          None \<Rightarrow> ''N/A'' | Some v \<Rightarrow> str_meta v) (sections ! i)
             \<and> sublist (case meta ''Servings'' of
                          None \<Rightarrow> ''N/A'' | Some v \<Rightarrow> str_meta v) (sections ! i)
             \<and> sublist (documents data ! i) (sections ! i)"
      using inp option_section_name [of meta i "documents data ! i"]
        option_section_time [of meta i "documents data ! i"]
        option_section_servings [of meta i "documents data ! i"]
        option_section_doc [of "documents data ! i" i meta]
      by (simp add: s meta_get_def)
    with m show ?thesis by blast
  qed
  have "p = prompt_head ings (Some cons) @ concat sections" using p t by simp
  with l b ing con each show ?thesis
    by blast
qed

section \<open>Calls that leave the program\<close>

lemma format_with_gemini_events:
  "snd (format_with_gemini m ings data cons) =
     (case build_prompt ings data cons of Inl e \<Rightarrow> [] | Inr p \<Rightarrow> [GenerateContent p])"
  by (simp add: format_with_gemini_def split: sum.split)

lemma format_with_gemini_no_query:
  "filter is_Query (snd (format_with_gemini m ings data cons)) = []"
  by (simp add: format_with_gemini_events split: sum.split)

lemma format_with_gemini_no_query_pair:
  assumes "format_with_gemini m ings data cons = (r, evs)"
  shows "filter is_Query evs = []"
  using format_with_gemini_no_query [of m ings data cons] assms by simp

lemma recommend_try_events:
  "\<exists>rest. snd (recommend_try g request) =
     Query [join '', '' (ingredients request)] 3 [''documents'', ''metadatas''] # rest
     \<and> filter is_Query rest = []"
  by (auto simp: recommend_try_def Let_def split: sum.split prod.split
           dest: format_with_gemini_no_query_pair)



section \<open>Start-up\<close>

text \<open>
  C8. When the environment has no \<^verbatim>\<open>GEMINI_API_KEY\<close>, module initialisation raises the
  ValueError with its descriptive message before any library call: no client is
  configured, no application is created and no route is registered, so there are no
  module globals for a handler to run with.
\<close>

theorem missing_credential_stops_startup:
  assumes "environ ''GEMINI_API_KEY'' = None"
  shows "module_init environ libs =
           (Inl (ValueError
              ''GEMINI_API_KEY not found. Please set it in your environment or .env file.''), [])"
  using assms by (simp add: module_init_def)

theorem missing_credential_stops_startup_witness:
  "Map.empty ''GEMINI_API_KEY'' = (None :: string option)
   \<and> module_init Map.empty working_libraries =
       (Inl (ValueError
          ''GEMINI_API_KEY not found. Please set it in your environment or .env file.''), [])"
  using missing_credential_stops_startup [of Map.empty working_libraries] by simp

section \<open>The branches of the handler\<close>

text \<open>
  One lemma per way through the \<^verbatim>\<open>try\<close> body once the store has been queried: the query
  raises, reading the first metadata list raises, prompt construction raises, or the
  answer is generated.
\<close>

lemma recommend_try_store_raises:
  assumes "collection g [join '', '' (ingredients request)] 3 [''documents'', ''metadatas'']
             = Inl e"
  shows "recommend_try g request =
           (Inl e, [Query [join '', '' (ingredients request)] 3 [''documents'', ''metadatas'']])"
  using assms by (simp add: recommend_try_def)

lemma recommend_try_metadatas_raises:
  assumes "collection g [join '', '' (ingredients request)] 3 [''documents'', ''metadatas'']
             = Inr results"
      and "res_documents results = Some (docs # drest)" and "docs \<noteq> []"
      and "subscript0 (res_metadatas results) = Inl e"
  shows "recommend_try g request =
           (Inl e, [Query [join '', '' (ingredients request)] 3 [''documents'', ''metadatas'']])"
  using assms by (simp add: recommend_try_def)

lemma recommend_try_prompt_raises:
  assumes "collection g [join '', '' (ingredients request)] 3 [''documents'', ''metadatas'']
             = Inr results"
      and "res_documents results = Some (docs # drest)" and "docs \<noteq> []"
      and "res_metadatas results = Some (metas # mrest)"
      and "build_prompt (ingredients request) \<lparr>documents = docs, metadatas = metas\<rparr>
             (constraints request) = Inl e"
  shows "recommend_try g request =
           (Inl e, [Query [join '', '' (ingredients request)] 3 [''documents'', ''metadatas'']])"
  using assms by (simp add: recommend_try_def format_with_gemini_def)

lemma recommend_try_generated:
  assumes "collection g [join '', '' (ingredients request)] 3 [''documents'', ''metadatas'']
             = Inr results"
      and "res_documents results = Some (docs # drest)" and "docs \<noteq> []"
      and "res_metadatas results = Some (metas # mrest)"
      and "build_prompt (ingredients request) \<lparr>documents = docs, metadatas = metas\<rparr>
             (constraints request) = Inr p"
  shows "recommend_try g request =
           (Inr [(''status'', PyStr ''success''),
                 (''ingredients_received'', PyList (ingredients request)),
                 (''constraints_applied'', py_optional (constraints request)),
                 (''recommendation'', PyStr (generate_guarded (model g) p))],
            [Query [join '', '' (ingredients request)] 3 [''documents'', ''metadatas''],
             GenerateContent p])"
  using assms by (simp add: recommend_try_def format_with_gemini_def)

lemma subscript0_Inr:
  assumes "subscript0 xs = Inr x"
  shows "\<exists>rest. xs = Some (x # rest)"
  using assms by (cases xs rule: subscript0.cases) simp_all

lemma recommend_try_with_documents:
  assumes q: "collection g [join '', '' (ingredients request)] 3 [''documents'', ''metadatas'']
             = Inr results"
      and d: "res_documents results = Some (docs # drest)" "docs \<noteq> []"
      and t: "recommend_try g request = (Inr body, evs)"
  shows "\<exists>answer. body = [(''status'', PyStr ''success''),
                 (''ingredients_received'', PyList (ingredients request)),
                 (''constraints_applied'', py_optional (constraints request)),
                 (''recommendation'', PyStr answer)]"
proof (cases "subscript0 (res_metadatas results)")
  case (Inl e)
  from recommend_try_metadatas_raises [OF q d Inl] t have False
    by (metis Pair_inject sum.distinct(1))
  then show ?thesis by (rule FalseE)
next
  case (Inr metas)
  from subscript0_Inr [OF Inr] obtain mrest where
    m: "res_metadatas results = Some (metas # mrest)" ..
  show ?thesis
  proof (cases "build_prompt (ingredients request) \<lparr>documents = docs, metadatas = metas\<rparr>
                  (constraints request)")
    case (Inl e)
    from recommend_try_prompt_raises [OF q d m Inl] t have False
      by (metis Pair_inject sum.distinct(1))
    then show ?thesis by (rule FalseE)
  next
    case (Inr p)
    from recommend_try_generated [OF q d m Inr] t
    have "body = [(''status'', PyStr ''success''),
                 (''ingredients_received'', PyList (ingredients request)),
                 (''constraints_applied'', py_optional (constraints request)),
                 (''recommendation'', PyStr (generate_guarded (model g) p))]"
      by (metis Pair_inject sum.inject(2))
    then show ?thesis by (rule exI)
  qed
qed

text \<open>The handler on the store that answers every query with the two sample recipes.\<close>

lemma two_recipes_prompt:
  "build_prompt ings \<lparr>documents = [''Boil it.'', ''Fry it.''],
                          metadatas = [Some soup_meta, Some Map.empty]\<rparr> cons =
     Inr (prompt_head ings cons
          @ option_section 0 soup_meta ''Boil it.'' @ option_section 1 Map.empty ''Fry it.'')"
  by (simp add: build_prompt_def)

lemma two_recipes_try:
  "recommend_try (globals_with (fixed_store two_recipes) m) request =
     (Inr [(''status'', PyStr ''success''),
           (''ingredients_received'', PyList (ingredients request)),
           (''constraints_applied'', py_optional (constraints request)),
           (''recommendation'', PyStr (generate_guarded m
              (prompt_head (ingredients request) (constraints request)
               @ option_section 0 soup_meta ''Boil it.'' @ option_section 1 Map.empty ''Fry it.'')))],
      [Query [join '', '' (ingredients request)] 3 [''documents'', ''metadatas''],
       GenerateContent
         (prompt_head (ingredients request) (constraints request)
          @ option_section 0 soup_meta ''Boil it.'' @ option_section 1 Map.empty ''Fry it.'')])"
proof -
  let ?g = "globals_with (fixed_store two_recipes) m"
  have q: "collection ?g [join '', '' (ingredients request)] 3 [''documents'', ''metadatas'']
             = Inr two_recipes"
    by (simp add: globals_with_def fixed_store_def)
  have d: "res_documents two_recipes = Some ([''Boil it.'', ''Fry it.''] # [])"
    and n: "[''Boil it.'', ''Fry it.''] \<noteq> ([] :: string list)"
    and m: "res_metadatas two_recipes = Some ([Some soup_meta, Some Map.empty] # [])"
    by (simp_all add: two_recipes_def)
  have "model ?g = m" by (simp add: globals_with_def)
  with recommend_try_generated [OF q d n m two_recipes_prompt] show ?thesis by simp
qed

lemma two_recipes_run:
  "recommend_recipes (globals_with (fixed_store two_recipes) m) request =
     (Returned [(''status'', PyStr ''success''),
           (''ingredients_received'', PyList (ingredients request)),
           (''constraints_applied'', py_optional (constraints request)),
           (''recommendation'', PyStr (generate_guarded m
              (prompt_head (ingredients request) (constraints request)
               @ option_section 0 soup_meta ''Boil it.'' @ option_section 1 Map.empty ''Fry it.'')))],
      [Query [join '', '' (ingredients request)] 3 [''documents'', ''metadatas''],
       GenerateContent
         (prompt_head (ingredients request) (constraints request)
          @ option_section 0 soup_meta ''Boil it.'' @ option_section 1 Map.empty ''Fry it.'')])"
  by (simp add: recommend_recipes_def two_recipes_try)

lemma answering_model_text: "generate_guarded answering_model p = ''Try the soup.''"
  by (simp add: generate_guarded_def answering_model_def)

lemma quota_model_text:
  "generate_guarded quota_model p = ''Error generating content: 429 quota exceeded''"
  by (simp add: generate_guarded_def quota_model_def)

section \<open>The success response\<close>

text \<open>
  C3. For a request body with a non-empty ingredient list, when the store answers with at
  least one document and the handler does not raise, the response has status 200 and is
  the dictionary with \<^verbatim>\<open>status\<close> success, \<^verbatim>\<open>ingredients_received\<close> the ingredient list
  of the body, \<^verbatim>\<open>constraints_applied\<close> the constraints string of the body, or the text None
  when the field was omitted (and \<^verbatim>\<open>None\<close> for an explicit \<^verbatim>\<open>null\<close>), and a
  \<^verbatim>\<open>recommendation\<close> text.
\<close>

theorem success_response_echoes_request:
  assumes "ings \<noteq> []"
      and "post_recommend g (Given ings) cons = Inr (out, evs)"
      and "\<forall>code detail. out \<noteq> HTTPException code detail"
      and "collection g [join '', '' ings] 3 [''documents'', ''metadatas''] = Inr results"
      and "res_documents results = Some (docs # drest)" and "docs \<noteq> []"
  shows "status_code out = 200
       \<and> (\<exists>answer. out = Returned
             [(''status'', PyStr ''success''),
              (''ingredients_received'', PyList ings),
              (''constraints_applied'',
                 (case cons of Omitted \<Rightarrow> PyStr ''None''
                  | Given None \<Rightarrow> PyNone
                  | Given (Some c) \<Rightarrow> PyStr c)),
              (''recommendation'', PyStr answer)])"
proof -
  define request where "request = \<lparr>ingredients = ings,
      constraints = (case cons of Omitted \<Rightarrow> Some ''None'' | Given c \<Rightarrow> c)\<rparr>"
  have run: "recommend_recipes g request = (out, evs)"
    using assms(2) by (simp add: post_recommend_def RecipeRequest_validate_def request_def)
  have i: "ingredients request = ings" by (simp add: request_def)
  have c: "py_optional (constraints request) =
      (case cons of Omitted \<Rightarrow> PyStr ''None'' | Given None \<Rightarrow> PyNone | Given (Some c) \<Rightarrow> PyStr c)"
    by (simp add: request_def split: field.split option.split)
  obtain body where t: "recommend_try g request = (Inr body, evs)"
    using run assms(3)
    by (cases "recommend_try g request")
       (auto simp: recommend_recipes_def split: sum.splits)
  have "collection g [join '', '' (ingredients request)] 3 [''documents'', ''metadatas'']
          = Inr results"
    using assms(4) by (simp add: i)
  from recommend_try_with_documents [OF this assms(5,6) t] obtain answer where
    "body = [(''status'', PyStr ''success''),
             (''ingredients_received'', PyList (ingredients request)),
             (''constraints_applied'', py_optional (constraints request)),
             (''recommendation'', PyStr answer)]" ..
  moreover have "out = Returned body"
    using run t by (simp add: recommend_recipes_def)
  ultimately show ?thesis
    by (simp add: i c)
qed

theorem success_response_echoes_request_witness:
  "[''eggs'', ''flour'', ''milk''] \<noteq> ([] :: string list)
   \<and> post_recommend (globals_with (fixed_store two_recipes) answering_model)
         (Given [''eggs'', ''flour'', ''milk'']) Omitted =
       Inr (Returned [(''status'', PyStr ''success''),
                      (''ingredients_received'', PyList [''eggs'', ''flour'', ''milk'']),
                      (''constraints_applied'', PyStr ''None''),
                      (''recommendation'', PyStr ''Try the soup.'')],
            [Query [''eggs, flour, milk''] 3 [''documents'', ''metadatas''],
             GenerateContent
               (prompt_head [''eggs'', ''flour'', ''milk''] (Some ''None'')
                @ option_section 0 soup_meta ''Boil it.'' @ option_section 1 Map.empty ''Fry it.'')])
   \<and> collection (globals_with (fixed_store two_recipes) answering_model)
         [join '', '' [''eggs'', ''flour'', ''milk'']] 3 [''documents'', ''metadatas''] = Inr two_recipes
   \<and> res_documents two_recipes = Some [[''Boil it.'', ''Fry it.'']]
   \<and> status_code (Returned [(''status'', PyStr ''success''),
                      (''ingredients_received'', PyList [''eggs'', ''flour'', ''milk'']),
                      (''constraints_applied'', PyStr ''None''),
                      (''recommendation'', PyStr ''Try the soup.'')]) = 200"
proof -
  let ?g = "globals_with (fixed_store two_recipes) answering_model"
  let ?ings = "[''eggs'', ''flour'', ''milk'']"
  let ?out = "Returned [(''status'', PyStr ''success''),
                      (''ingredients_received'', PyList ?ings),
                      (''constraints_applied'', PyStr ''None''),
                      (''recommendation'', PyStr ''Try the soup.'')]"
  let ?evs = "[Query [''eggs, flour, milk''] 3 [''documents'', ''metadatas''],
             GenerateContent
               (prompt_head ?ings (Some ''None'')
                @ option_section 0 soup_meta ''Boil it.'' @ option_section 1 Map.empty ''Fry it.'')]"
  have n: "?ings \<noteq> []" by simp
  have run: "post_recommend ?g (Given ?ings) Omitted = Inr (?out, ?evs)"
    by (simp add: post_recommend_def RecipeRequest_validate_def two_recipes_run
          answering_model_text)
  have ok: "\<forall>code detail. ?out \<noteq> HTTPException code detail" by simp
  have q: "collection ?g [join '', '' ?ings] 3 [''documents'', ''metadatas''] = Inr two_recipes"
    by (simp add: globals_with_def fixed_store_def)
  have d: "res_documents two_recipes = Some ([''Boil it.'', ''Fry it.''] # [])"
    by (simp add: two_recipes_def)
  have e: "[''Boil it.'', ''Fry it.''] \<noteq> ([] :: string list)" by simp
  from success_response_echoes_request [OF n run ok q d e] have "status_code ?out = 200"
    by (rule conjunct1)
  with n run q d show ?thesis by simp
qed

section \<open>Failures\<close>

subsection \<open>The model call\<close>

lemma generate_guarded_failure:
  assumes "m p = Inl e \<or> (\<exists>response. m p = Inr response \<and> response_text response = Inl e)"
  shows "generate_guarded m p = ''Error generating content: '' @ str_exn e"
  using assms by (auto simp: generate_guarded_def)

text \<open>
  C4. Once the prompt is built, the generation function does not raise: when the model call
  fails, either in \<^verbatim>\<open>generate_content\<close> or on reading \<^verbatim>\<open>response.text\<close>, it returns the
  text Error generating content: followed by the message of the exception, in place of the
  recommendation text.
\<close>

theorem generation_failure_described:
  assumes "build_prompt ings data cons = Inr p"
      and "m p = Inl e \<or> (\<exists>response. m p = Inr response \<and> response_text response = Inl e)"
  shows "format_with_gemini m ings data cons =
           (Inr (''Error generating content: '' @ str_exn e), [GenerateContent p])"
  using assms(1) generate_guarded_failure [of m p e] assms(2)
  by (simp add: format_with_gemini_def)

theorem generation_failure_described_witness:
  "build_prompt [''chicken'']
       \<lparr>documents = [''Boil it.'', ''Fry it.''], metadatas = [Some soup_meta, Some Map.empty]\<rparr>
       (Some ''no dairy, no oven'') =
     Inr (prompt_head [''chicken''] (Some ''no dairy, no oven'')
          @ option_section 0 soup_meta ''Boil it.'' @ option_section 1 Map.empty ''Fry it.'')
   \<and> quota_model (prompt_head [''chicken''] (Some ''no dairy, no oven'')
          @ option_section 0 soup_meta ''Boil it.'' @ option_section 1 Map.empty ''Fry it.'')
       = Inl (LibraryError ''429 quota exceeded'')
   \<and> format_with_gemini quota_model [''chicken'']
         \<lparr>documents = [''Boil it.'', ''Fry it.''], metadatas = [Some soup_meta, Some Map.empty]\<rparr>
         (Some ''no dairy, no oven'') =
       (Inr ''Error generating content: 429 quota exceeded'',
        [GenerateContent
           (prompt_head [''chicken''] (Some ''no dairy, no oven'')
            @ option_section 0 soup_meta ''Boil it.'' @ option_section 1 Map.empty ''Fry it.'')])"
proof -
  let ?p = "prompt_head [''chicken''] (Some ''no dairy, no oven'')
          @ option_section 0 soup_meta ''Boil it.'' @ option_section 1 Map.empty ''Fry it.''"
  have b: "build_prompt [''chicken'']
       \<lparr>documents = [''Boil it.'', ''Fry it.''], metadatas = [Some soup_meta, Some Map.empty]\<rparr>
       (Some ''no dairy, no oven'') = Inr ?p"
    by (rule two_recipes_prompt)
  have f: "quota_model ?p = Inl (LibraryError ''429 quota exceeded'')"
    by (simp add: quota_model_def)
  then have "quota_model ?p = Inl (LibraryError ''429 quota exceeded'')
      \<or> (\<exists>response. quota_model ?p = Inr response
            \<and> response_text response = Inl (LibraryError ''429 quota exceeded''))"
    by (rule disjI1)
  from generation_failure_described
         [where m = quota_model and p = ?p and e = "LibraryError ''429 quota exceeded''", OF b this]
       b f
  show ?thesis by simp
qed

subsection \<open>The handler boundary\<close>

lemma recommend_recipes_raised:
  assumes "recommend_try g request = (Inl e, evs)"
  shows "recommend_recipes g request =
           (HTTPException 500 (''Internal Server Error: '' @ str_exn e), evs)"
  using assms by (simp add: recommend_recipes_def)

lemma recommend_recipes_outcome:
  "(\<exists>body. fst (recommend_recipes g request) = Returned body)
   \<or> (\<exists>e. fst (recommend_recipes g request) =
            HTTPException 500 (''Internal Server Error: '' @ str_exn e))"
proof (cases "recommend_try g request")
  case (Pair r evs)
  then show ?thesis
    by (cases r) (auto simp: recommend_recipes_def)
qed

lemma some_documents:
  assumes "\<not> no_documents d"
  shows "\<exists>docs drest. d = Some (docs # drest) \<and> docs \<noteq> []"
  using assms by (cases d rule: no_documents.cases) simp_all

lemma recommend_try_raised_stage:
  assumes t: "recommend_try g request = (Inl e, evs)"
  shows "collection g [join '', '' (ingredients request)] 3 [''documents'', ''metadatas''] = Inl e
       \<or> (\<exists>results docs drest.
             collection g [join '', '' (ingredients request)] 3 [''documents'', ''metadatas'']
               = Inr results
           \<and> res_documents results = Some (docs # drest) \<and> docs \<noteq> []
           \<and> subscript0 (res_metadatas results) = Inl e)
       \<or> (\<exists>results docs drest metas mrest.
             collection g [join '', '' (ingredients request)] 3 [''documents'', ''metadatas'']
               = Inr results
           \<and> res_documents results = Some (docs # drest) \<and> docs \<noteq> []
           \<and> res_metadatas results = Some (metas # mrest)
           \<and> build_prompt (ingredients request) \<lparr>documents = docs, metadatas = metas\<rparr>
                 (constraints request) = Inl e)"
proof (cases "collection g [join '', '' (ingredients request)] 3 [''documents'', ''metadatas'']")
  case (Inl e0)
  from recommend_try_store_raises [OF Inl] t have "e0 = e" by simp
  with Inl show ?thesis by simp
next
  case (Inr results)
  note q = Inr
  show ?thesis
  proof (cases "no_documents (res_documents results)")
    case True
    from recommend_try_no_documents [OF q True] t show ?thesis by simp
  next
    case False
    from some_documents [OF False] obtain docs drest where
      d: "res_documents results = Some (docs # drest)" and n: "docs \<noteq> []"
      by (elim exE conjE)
    show ?thesis
    proof (cases "subscript0 (res_metadatas results)")
      case (Inl e0)
      from recommend_try_metadatas_raises [OF q d n Inl] t have "e0 = e" by simp
      with q d n Inl have "\<exists>results docs drest.
             collection g [join '', '' (ingredients request)] 3 [''documents'', ''metadatas'']
               = Inr results
           \<and> res_documents results = Some (docs # drest) \<and> docs \<noteq> []
           \<and> subscript0 (res_metadatas results) = Inl e"
        by (intro exI [of _ results] exI [of _ docs] exI [of _ drest]) simp
      then show ?thesis by (intro disjI2 disjI1)
    next
      case (Inr metas)
      from subscript0_Inr [OF Inr] obtain mrest where
        m: "res_metadatas results = Some (metas # mrest)" ..
      show ?thesis
      proof (cases "build_prompt (ingredients request) \<lparr>documents = docs, metadatas = metas\<rparr>
                      (constraints request)")
        case (Inl e0)
        from recommend_try_prompt_raises [OF q d n m Inl] t have "e0 = e" by simp
        with q d n m Inl have "\<exists>results docs drest metas mrest.
             collection g [join '', '' (ingredients request)] 3 [''documents'', ''metadatas'']
               = Inr results
           \<and> res_documents results = Some (docs # drest) \<and> docs \<noteq> []
           \<and> res_metadatas results = Some (metas # mrest)
           \<and> build_prompt (ingredients request) \<lparr>documents = docs, metadatas = metas\<rparr>
                 (constraints request) = Inl e"
          by (intro exI [of _ results] exI [of _ docs] exI [of _ drest]
                    exI [of _ metas] exI [of _ mrest]) simp
        then show ?thesis by (intro disjI2)
      next
        case (Inr p)
        from recommend_try_generated [OF q d n m Inr] t show ?thesis by simp
      qed
    qed
  qed
qed

text \<open>
  C5, as amended. Joining the ingredients raises nothing. An exception raised by the store
  query, by reading the first metadata list of the result, or by prompt construction is
  caught by the handler and becomes an HTTPException with status 500 and the detail
  Internal Server Error: followed by the message of the exception. An exception raised by
  the model call, in \<^verbatim>\<open>generate_content\<close> or on reading \<^verbatim>\<open>response.text\<close>, never reaches
  the handler: the request ends as the success dictionary whose recommendation is the text
  Error generating content: followed by the message. Conversely, every HTTPException that
  leaves the handler has status 500 and carries the message of an exception raised in one
  of those three stages, and every request ends as a returned dictionary or as such an
  HTTPException.
\<close>

theorem handler_converts_exceptions:
  "((collection g [join '', '' (ingredients request)] 3 [''documents'', ''metadatas''] = Inl e
       \<or> (\<exists>results docs drest.
             collection g [join '', '' (ingredients request)] 3 [''documents'', ''metadatas'']
               = Inr results
           \<and> res_documents results = Some (docs # drest) \<and> docs \<noteq> []
           \<and> subscript0 (res_metadatas results) = Inl e)
       \<or> (\<exists>results docs drest metas mrest.
             collection g [join '', '' (ingredients request)] 3 [''documents'', ''metadatas'']
               = Inr results
           \<and> res_documents results = Some (docs # drest) \<and> docs \<noteq> []
           \<and> res_metadatas results = Some (metas # mrest)
           \<and> build_prompt (ingredients request) \<lparr>documents = docs, metadatas = metas\<rparr>
                 (constraints request) = Inl e))
      \<longrightarrow> recommend_recipes g request =
           (HTTPException 500 (''Internal Server Error: '' @ str_exn e),
            [Query [join '', '' (ingredients request)] 3 [''documents'', ''metadatas'']]))
   \<and> (\<forall>results docs drest metas mrest p e'.
          collection g [join '', '' (ingredients request)] 3 [''documents'', ''metadatas'']
            = Inr results
        \<and> res_documents results = Some (docs # drest) \<and> docs \<noteq> []
        \<and> res_metadatas results = Some (metas # mrest)
        \<and> build_prompt (ingredients request) \<lparr>documents = docs, metadatas = metas\<rparr>
              (constraints request) = Inr p
        \<and> (model g p = Inl e'
             \<or> (\<exists>response. model g p = Inr response \<and> response_text response = Inl e'))
      \<longrightarrow> recommend_recipes g request =
           (Returned [(''status'', PyStr ''success''),
                      (''ingredients_received'', PyList (ingredients request)),
                      (''constraints_applied'', py_optional (constraints request)),
                      (''recommendation'', PyStr (''Error generating content: '' @ str_exn e'))],
            [Query [join '', '' (ingredients request)] 3 [''documents'', ''metadatas''],
             GenerateContent p]))
   \<and> (\<forall>code detail.
          fst (recommend_recipes g request) = HTTPException code detail
      \<longrightarrow> code = 500
          \<and> (\<exists>e'. detail = ''Internal Server Error: '' @ str_exn e'
               \<and> (collection g [join '', '' (ingredients request)] 3 [''documents'', ''metadatas'']
                     = Inl e'
                  \<or> (\<exists>results docs drest.
                        collection g [join '', '' (ingredients request)] 3
                          [''documents'', ''metadatas''] = Inr results
                      \<and> res_documents results = Some (docs # drest) \<and> docs \<noteq> []
                      \<and> subscript0 (res_metadatas results) = Inl e')
                  \<or> (\<exists>results docs drest metas mrest.
                        collection g [join '', '' (ingredients request)] 3
                          [''documents'', ''metadatas''] = Inr results
                      \<and> res_documents results = Some (docs # drest) \<and> docs \<noteq> []
                      \<and> res_metadatas results = Some (metas # mrest)
                      \<and> build_prompt (ingredients request)
                            \<lparr>documents = docs, metadatas = metas\<rparr> (constraints request)
                          = Inl e'))))
   \<and> ((\<exists>body. fst (recommend_recipes g request) = Returned body)
      \<or> (\<exists>e'. fst (recommend_recipes g request) =
             HTTPException 500 (''Internal Server Error: '' @ str_exn e')))"
proof (intro conjI allI impI)
  assume "collection g [join '', '' (ingredients request)] 3 [''documents'', ''metadatas''] = Inl e
       \<or> (\<exists>results docs drest.
             collection g [join '', '' (ingredients request)] 3 [''documents'', ''metadatas'']
               = Inr results
           \<and> res_documents results = Some (docs # drest) \<and> docs \<noteq> []
           \<and> subscript0 (res_metadatas results) = Inl e)
       \<or> (\<exists>results docs drest metas mrest.
             collection g [join '', '' (ingredients request)] 3 [''documents'', ''metadatas'']
               = Inr results
           \<and> res_documents results = Some (docs # drest) \<and> docs \<noteq> []
           \<and> res_metadatas results = Some (metas # mrest)
           \<and> build_prompt (ingredients request) \<lparr>documents = docs, metadatas = metas\<rparr>
                 (constraints request) = Inl e)"
  then have "recommend_try g request =
          (Inl e, [Query [join '', '' (ingredients request)] 3 [''documents'', ''metadatas'']])"
  proof (elim disjE exE conjE)
    assume "collection g [join '', '' (ingredients request)] 3 [''documents'', ''metadatas'']
              = Inl e"
    then show ?thesis by (rule recommend_try_store_raises)
  next
    fix results docs drest
    assume "collection g [join '', '' (ingredients request)] 3 [''documents'', ''metadatas'']
              = Inr results"
      "res_documents results = Some (docs # drest)" "docs \<noteq> []"
      "subscript0 (res_metadatas results) = Inl e"
    then show ?thesis by (rule recommend_try_metadatas_raises)
  next
    fix results docs drest metas mrest
    assume "collection g [join '', '' (ingredients request)] 3 [''documents'', ''metadatas'']
              = Inr results"
      "res_documents results = Some (docs # drest)" "docs \<noteq> []"
      "res_metadatas results = Some (metas # mrest)"
      "build_prompt (ingredients request) \<lparr>documents = docs, metadatas = metas\<rparr>
                 (constraints request) = Inl e"
    then show ?thesis by (rule recommend_try_prompt_raises)
  qed
  then show "recommend_recipes g request =
           (HTTPException 500 (''Internal Server Error: '' @ str_exn e),
            [Query [join '', '' (ingredients request)] 3 [''documents'', ''metadatas'']])"
    by (rule recommend_recipes_raised)
next
  fix results docs drest metas mrest p e'
  assume a: "collection g [join '', '' (ingredients request)] 3 [''documents'', ''metadatas'']
            = Inr results
        \<and> res_documents results = Some (docs # drest) \<and> docs \<noteq> []
        \<and> res_metadatas results = Some (metas # mrest)
        \<and> build_prompt (ingredients request) \<lparr>documents = docs, metadatas = metas\<rparr>
              (constraints request) = Inr p
        \<and> (model g p = Inl e'
             \<or> (\<exists>response. model g p = Inr response \<and> response_text response = Inl e'))"
  then have q: "collection g [join '', '' (ingredients request)] 3 [''documents'', ''metadatas'']
            = Inr results"
    and d: "res_documents results = Some (docs # drest)" and n: "docs \<noteq> []"
    and m: "res_metadatas results = Some (metas # mrest)"
    and b: "build_prompt (ingredients request) \<lparr>documents = docs, metadatas = metas\<rparr>
              (constraints request) = Inr p"
    and f: "model g p = Inl e'
             \<or> (\<exists>response. model g p = Inr response \<and> response_text response = Inl e')"
    by simp_all
  have "generate_guarded (model g) p = ''Error generating content: '' @ str_exn e'"
    using generate_guarded_failure [of "model g" p e'] f by simp
  with recommend_try_generated [OF q d n m b]
  show "recommend_recipes g request =
           (Returned [(''status'', PyStr ''success''),
                      (''ingredients_received'', PyList (ingredients request)),
                      (''constraints_applied'', py_optional (constraints request)),
                      (''recommendation'', PyStr (''Error generating content: '' @ str_exn e'))],
            [Query [join '', '' (ingredients request)] 3 [''documents'', ''metadatas''],
             GenerateContent p])"
    by (simp add: recommend_recipes_def)
next
  fix code detail
  assume h: "fst (recommend_recipes g request) = HTTPException code detail"
  obtain r evs where t: "recommend_try g request = (r, evs)"
    by (cases "recommend_try g request")
  from h t obtain e' where r: "r = Inl e'"
    and c: "code = 500" and dt: "detail = ''Internal Server Error: '' @ str_exn e'"
    by (cases r) (simp_all add: recommend_recipes_def)
  show "code = 500" by (rule c)
  from t r have "recommend_try g request = (Inl e', evs)" by simp
  from recommend_try_raised_stage [OF this] dt
  show "\<exists>e'. detail = ''Internal Server Error: '' @ str_exn e'
               \<and> (collection g [join '', '' (ingredients request)] 3 [''documents'', ''metadatas'']
                     = Inl e'
                  \<or> (\<exists>results docs drest.
                        collection g [join '', '' (ingredients request)] 3
                          [''documents'', ''metadatas''] = Inr results
                      \<and> res_documents results = Some (docs # drest) \<and> docs \<noteq> []
                      \<and> subscript0 (res_metadatas results) = Inl e')
                  \<or> (\<exists>results docs drest metas mrest.
                        collection g [join '', '' (ingredients request)] 3
                          [''documents'', ''metadatas''] = Inr results
                      \<and> res_documents results = Some (docs # drest) \<and> docs \<noteq> []
                      \<and> res_metadatas results = Some (metas # mrest)
                      \<and> build_prompt (ingredients request)
                            \<lparr>documents = docs, metadatas = metas\<rparr> (constraints request)
                          = Inl e'))"
    by (intro exI [of _ e'] conjI)
next
  show "(\<exists>body. fst (recommend_recipes g request) = Returned body)
      \<or> (\<exists>e'. fst (recommend_recipes g request) =
             HTTPException 500 (''Internal Server Error: '' @ str_exn e'))"
    by (rule recommend_recipes_outcome)
qed


theorem handler_converts_exceptions_witness:
  "collection (globals_with unreachable_store answering_model)
      [join '', '' (ingredients chicken_request)] 3 [''documents'', ''metadatas'']
     = Inl (LibraryError ''store unavailable'')
   \<and> recommend_recipes (globals_with unreachable_store answering_model) chicken_request =
       (HTTPException 500 ''Internal Server Error: store unavailable'',
        [Query [''chicken''] 3 [''documents'', ''metadatas'']])
   \<and> collection (globals_with (fixed_store no_metadatas) answering_model)
      [join '', '' (ingredients chicken_request)] 3 [''documents'', ''metadatas'']
     = Inr no_metadatas
   \<and> res_documents no_metadatas = Some [[''Boil it.'']]
   \<and> subscript0 (res_metadatas no_metadatas)
       = Inl (TypeError '''NoneType' object is not subscriptable'')
   \<and> recommend_recipes (globals_with (fixed_store no_metadatas) answering_model) chicken_request =
       (HTTPException 500 ''Internal Server Error: 'NoneType' object is not subscriptable'',
        [Query [''chicken''] 3 [''documents'', ''metadatas'']])
   \<and> collection (globals_with (fixed_store short_metadatas) answering_model)
      [join '', '' (ingredients chicken_request)] 3 [''documents'', ''metadatas'']
     = Inr short_metadatas
   \<and> res_documents short_metadatas = Some [[''Boil it.'', ''Fry it.'']]
   \<and> res_metadatas short_metadatas = Some [[Some soup_meta]]
   \<and> build_prompt (ingredients chicken_request)
         \<lparr>documents = [''Boil it.'', ''Fry it.''], metadatas = [Some soup_meta]\<rparr>
         (constraints chicken_request) = Inl (IndexError ''list index out of range'')
   \<and> recommend_recipes (globals_with (fixed_store short_metadatas) answering_model)
         chicken_request =
       (HTTPException 500 ''Internal Server Error: list index out of range'',
        [Query [''chicken''] 3 [''documents'', ''metadatas'']])
   \<and> collection (globals_with (fixed_store two_recipes) quota_model)
      [join '', '' (ingredients chicken_request)] 3 [''documents'', ''metadatas'']
     = Inr two_recipes
   \<and> res_documents two_recipes = Some [[''Boil it.'', ''Fry it.'']]
   \<and> res_metadatas two_recipes = Some [[Some soup_meta, Some Map.empty]]
   \<and> build_prompt (ingredients chicken_request)
         \<lparr>documents = [''Boil it.'', ''Fry it.''], metadatas = [Some soup_meta, Some Map.empty]\<rparr>
         (constraints chicken_request) =
       Inr (prompt_head [''chicken''] (Some ''no dairy, no oven'')
            @ option_section 0 soup_meta ''Boil it.'' @ option_section 1 Map.empty ''Fry it.'')
   \<and> model (globals_with (fixed_store two_recipes) quota_model)
         (prompt_head [''chicken''] (Some ''no dairy, no oven'')
          @ option_section 0 soup_meta ''Boil it.'' @ option_section 1 Map.empty ''Fry it.'')
       = Inl (LibraryError ''429 quota exceeded'')
   \<and> recommend_recipes (globals_with (fixed_store two_recipes) quota_model) chicken_request =
       (Returned [(''status'', PyStr ''success''),
                  (''ingredients_received'', PyList [''chicken'']),
                  (''constraints_applied'', PyStr ''no dairy, no oven''),
                  (''recommendation'', PyStr ''Error generating content: 429 quota exceeded'')],
        [Query [''chicken''] 3 [''documents'', ''metadatas''],
         GenerateContent
           (prompt_head [''chicken''] (Some ''no dairy, no oven'')
            @ option_section 0 soup_meta ''Boil it.'' @ option_section 1 Map.empty ''Fry it.'')])
   \<and> (\<exists>e'. ''Internal Server Error: store unavailable'' = ''Internal Server Error: '' @ str_exn e'
          \<and> collection (globals_with unreachable_store answering_model)
                [join '', '' (ingredients chicken_request)] 3 [''documents'', ''metadatas'']
              = Inl e')"
proof -
  let ?Q = "[Query [join '', '' (ingredients chicken_request)] 3 [''documents'', ''metadatas'']]"
  let ?g1 = "globals_with unreachable_store answering_model"
  let ?g2 = "globals_with (fixed_store no_metadatas) answering_model"
  let ?g3 = "globals_with (fixed_store short_metadatas) answering_model"
  let ?g4 = "globals_with (fixed_store two_recipes) quota_model"
  let ?p = "prompt_head [''chicken''] (Some ''no dairy, no oven'')
            @ option_section 0 soup_meta ''Boil it.'' @ option_section 1 Map.empty ''Fry it.''"
  have j: "join '', '' (ingredients chicken_request) = ''chicken''"
    and i: "ingredients chicken_request = [''chicken'']"
    and c: "constraints chicken_request = Some ''no dairy, no oven''"
    by (simp_all add: chicken_request_def)
  have q1: "collection ?g1 [join '', '' (ingredients chicken_request)] 3 [''documents'', ''metadatas'']
     = Inl (LibraryError ''store unavailable'')"
    by (simp add: globals_with_def unreachable_store_def)
  have q2: "collection ?g2 [join '', '' (ingredients chicken_request)] 3 [''documents'', ''metadatas'']
     = Inr no_metadatas"
    and q3: "collection ?g3 [join '', '' (ingredients chicken_request)] 3 [''documents'', ''metadatas'']
     = Inr short_metadatas"
    and q4: "collection ?g4 [join '', '' (ingredients chicken_request)] 3 [''documents'', ''metadatas'']
     = Inr two_recipes"
    by (simp_all add: globals_with_def fixed_store_def)
  have d2: "res_documents no_metadatas = Some ([''Boil it.''] # [])"
    and n2: "[''Boil it.''] \<noteq> ([] :: string list)"
    and m2: "subscript0 (res_metadatas no_metadatas)
       = Inl (TypeError '''NoneType' object is not subscriptable'')"
    by (simp_all add: no_metadatas_def)
  have d3: "res_documents short_metadatas = Some ([''Boil it.'', ''Fry it.''] # [])"
    and n3: "[''Boil it.'', ''Fry it.''] \<noteq> ([] :: string list)"
    and m3: "res_metadatas short_metadatas = Some ([Some soup_meta] # [])"
    by (simp_all add: short_metadatas_def)
  have b3: "build_prompt (ingredients chicken_request)
         \<lparr>documents = [''Boil it.'', ''Fry it.''], metadatas = [Some soup_meta]\<rparr>
         (constraints chicken_request) = Inl (IndexError ''list index out of range'')"
    by (simp add: build_prompt_def)
  have d4: "res_documents two_recipes = Some ([''Boil it.'', ''Fry it.''] # [])"
    and m4: "res_metadatas two_recipes = Some ([Some soup_meta, Some Map.empty] # [])"
    by (simp_all add: two_recipes_def)
  have b4: "build_prompt (ingredients chicken_request)
         \<lparr>documents = [''Boil it.'', ''Fry it.''], metadatas = [Some soup_meta, Some Map.empty]\<rparr>
         (constraints chicken_request) = Inr ?p"
    by (simp add: two_recipes_prompt i c)
  have f4: "model ?g4 ?p = Inl (LibraryError ''429 quota exceeded'')"
    by (simp add: globals_with_def quota_model_def)
  have r1: "recommend_recipes ?g1 chicken_request =
       (HTTPException 500 (''Internal Server Error: '' @ str_exn (LibraryError ''store unavailable'')), ?Q)"
    by (rule handler_converts_exceptions
          [where g = ?g1 and request = chicken_request and e = "LibraryError ''store unavailable''",
           THEN conjunct1, rule_format, OF disjI1, OF q1])
  have "\<exists>results docs drest.
             collection ?g2 [join '', '' (ingredients chicken_request)] 3 [''documents'', ''metadatas'']
               = Inr results
           \<and> res_documents results = Some (docs # drest) \<and> docs \<noteq> []
           \<and> subscript0 (res_metadatas results)
               = Inl (TypeError '''NoneType' object is not subscriptable'')"
    using q2 d2 n2 m2 by (intro exI conjI)
  then have r2: "recommend_recipes ?g2 chicken_request =
       (HTTPException 500 (''Internal Server Error: ''
          @ str_exn (TypeError '''NoneType' object is not subscriptable'')), ?Q)"
    by (rule handler_converts_exceptions
          [where g = ?g2 and request = chicken_request
             and e = "TypeError '''NoneType' object is not subscriptable''",
           THEN conjunct1, rule_format, OF disjI2, OF disjI1])
  have "\<exists>results docs drest metas mrest.
             collection ?g3 [join '', '' (ingredients chicken_request)] 3 [''documents'', ''metadatas'']
               = Inr results
           \<and> res_documents results = Some (docs # drest) \<and> docs \<noteq> []
           \<and> res_metadatas results = Some (metas # mrest)
           \<and> build_prompt (ingredients chicken_request) \<lparr>documents = docs, metadatas = metas\<rparr>
                 (constraints chicken_request) = Inl (IndexError ''list index out of range'')"
    using q3 d3 n3 m3 b3 by (intro exI conjI)
  then have r3: "recommend_recipes ?g3 chicken_request =
       (HTTPException 500 (''Internal Server Error: ''
          @ str_exn (IndexError ''list index out of range'')), ?Q)"
    by (rule handler_converts_exceptions
          [where g = ?g3 and request = chicken_request
             and e = "IndexError ''list index out of range''",
           THEN conjunct1, rule_format, OF disjI2, OF disjI2])
  have r4: "recommend_recipes ?g4 chicken_request =
       (Returned [(''status'', PyStr ''success''),
                  (''ingredients_received'', PyList (ingredients chicken_request)),
                  (''constraints_applied'', py_optional (constraints chicken_request)),
                  (''recommendation'', PyStr (''Error generating content: ''
                       @ str_exn (LibraryError ''429 quota exceeded'')))],
        [Query [join '', '' (ingredients chicken_request)] 3 [''documents'', ''metadatas''],
         GenerateContent ?p])"
    by (rule handler_converts_exceptions
          [where g = ?g4 and request = chicken_request,
           THEN conjunct2, THEN conjunct1, rule_format,
           OF conjI [OF q4 conjI [OF d4 conjI [OF n3 conjI [OF m4 conjI [OF b4 disjI1 [OF f4]]]]]]])
  have h1: "fst (recommend_recipes ?g1 chicken_request) =
      HTTPException 500 ''Internal Server Error: store unavailable''"
    using r1 by simp
  have s1: "\<exists>e'. ''Internal Server Error: store unavailable'' = ''Internal Server Error: '' @ str_exn e'
               \<and> (collection ?g1 [join '', '' (ingredients chicken_request)] 3 [''documents'', ''metadatas'']
                     = Inl e'
                  \<or> (\<exists>results docs drest.
                        collection ?g1 [join '', '' (ingredients chicken_request)] 3
                          [''documents'', ''metadatas''] = Inr results
                      \<and> res_documents results = Some (docs # drest) \<and> docs \<noteq> []
                      \<and> subscript0 (res_metadatas results) = Inl e')
                  \<or> (\<exists>results docs drest metas mrest.
                        collection ?g1 [join '', '' (ingredients chicken_request)] 3
                          [''documents'', ''metadatas''] = Inr results
                      \<and> res_documents results = Some (docs # drest) \<and> docs \<noteq> []
                      \<and> res_metadatas results = Some (metas # mrest)
                      \<and> build_prompt (ingredients chicken_request)
                            \<lparr>documents = docs, metadatas = metas\<rparr> (constraints chicken_request)
                          = Inl e'))"
    by (rule handler_converts_exceptions
          [where g = ?g1 and request = chicken_request,
           THEN conjunct2, THEN conjunct2, THEN conjunct1, rule_format, OF h1, THEN conjunct2])
  have s1': "\<exists>e'. ''Internal Server Error: store unavailable'' = ''Internal Server Error: '' @ str_exn e'
          \<and> collection ?g1 [join '', '' (ingredients chicken_request)] 3 [''documents'', ''metadatas'']
              = Inl e'"
    using s1 by (simp add: q1)
  from r1 r2 r3 r4 q1 q2 q3 q4 d2 m2 d3 m3 b3 d4 m4 b4 f4 s1' show ?thesis
    by (simp add: j i c)
qed

text \<open>
  C5, as stated, fails for the generation stage: here the model call raises on the prompt
  that the handler sends, the generation function absorbs the exception, and the handler
  returns the success dictionary (status 200) with the error description as the
  recommendation, not an HTTPException with status 500.
\<close>

theorem generation_exception_is_not_500:
  "model (globals_with (fixed_store two_recipes) quota_model)
      (prompt_head [''chicken''] (Some ''no dairy, no oven'')
       @ option_section 0 soup_meta ''Boil it.'' @ option_section 1 Map.empty ''Fry it.'')
     = Inl (LibraryError ''429 quota exceeded'')
   \<and> recommend_recipes (globals_with (fixed_store two_recipes) quota_model) chicken_request =
       (Returned [(''status'', PyStr ''success''),
                  (''ingredients_received'', PyList [''chicken'']),
                  (''constraints_applied'', PyStr ''no dairy, no oven''),
                  (''recommendation'', PyStr ''Error generating content: 429 quota exceeded'')],
        [Query [''chicken''] 3 [''documents'', ''metadatas''],
         GenerateContent
           (prompt_head [''chicken''] (Some ''no dairy, no oven'')
            @ option_section 0 soup_meta ''Boil it.'' @ option_section 1 Map.empty ''Fry it.'')])
   \<and> fst (recommend_recipes (globals_with (fixed_store two_recipes) quota_model) chicken_request)
       \<noteq> HTTPException 500 ''Internal Server Error: 429 quota exceeded''"
proof -
  have m: "model (globals_with (fixed_store two_recipes) quota_model)
      (prompt_head [''chicken''] (Some ''no dairy, no oven'')
       @ option_section 0 soup_meta ''Boil it.'' @ option_section 1 Map.empty ''Fry it.'')
     = Inl (LibraryError ''429 quota exceeded'')"
    by (simp add: globals_with_def quota_model_def)
  have r: "recommend_recipes (globals_with (fixed_store two_recipes) quota_model) chicken_request =
       (Returned [(''status'', PyStr ''success''),
                  (''ingredients_received'', PyList [''chicken'']),
                  (''constraints_applied'', PyStr ''no dairy, no oven''),
                  (''recommendation'', PyStr ''Error generating content: 429 quota exceeded'')],
        [Query [''chicken''] 3 [''documents'', ''metadatas''],
         GenerateContent
           (prompt_head [''chicken''] (Some ''no dairy, no oven'')
            @ option_section 0 soup_meta ''Boil it.'' @ option_section 1 Map.empty ''Fry it.'')])"
    using two_recipes_run [of quota_model chicken_request]
    by (simp add: quota_model_text chicken_request_def)
  from m r show ?thesis by simp
qed

subsection \<open>Prompt construction\<close>

text \<open>
  C2 asks that the prompt hold, for every retrieved record, its display name or the text
  Unknown Recipe when that is absent, its cooking time and servings or the text N/A, and
  its instruction text. Lines 41 and 42 supply the placeholders through \<^verbatim>\<open>meta.get\<close>,
  which needs a mapping: for a record that the store returns without metadata, the entry
  is \<^verbatim>\<open>None\<close>, line 41 raises AttributeError, no prompt is built and the request ends as
  an HTTPException with status 500.
\<close>

theorem missing_metadata_raises:
  "build_prompt [''chicken''] \<lparr>documents = [''Boil it.''], metadatas = [None]\<rparr>
       (Some ''no dairy, no oven'') =
     Inl (AttributeError ('''NoneType' object has no attribute 'get'' @ [CHR 0x27]))
   \<and> recommend_recipes (globals_with (fixed_store missing_metadata) answering_model)
         chicken_request =
       (HTTPException 500
          (''Internal Server Error: 'NoneType' object has no attribute 'get'' @ [CHR 0x27]),
        [Query [''chicken''] 3 [''documents'', ''metadatas'']])"
proof -
  let ?g = "globals_with (fixed_store missing_metadata) answering_model"
  have b: "build_prompt (ingredients chicken_request)
             \<lparr>documents = [''Boil it.''], metadatas = [None]\<rparr> (constraints chicken_request) =
           Inl (AttributeError ('''NoneType' object has no attribute 'get'' @ [CHR 0x27]))"
    by (simp add: build_prompt_def)
  have q: "collection ?g [join '', '' (ingredients chicken_request)] 3 [''documents'', ''metadatas'']
     = Inr missing_metadata"
    by (simp add: globals_with_def fixed_store_def)
  have d: "res_documents missing_metadata = Some ([''Boil it.''] # [])"
    and n: "[''Boil it.''] \<noteq> ([] :: string list)"
    and m: "res_metadatas missing_metadata = Some ([None] # [])"
    by (simp_all add: missing_metadata_def)
  from recommend_try_prompt_raises [OF q d n m b]
  have "recommend_recipes ?g chicken_request =
       (HTTPException 500 (''Internal Server Error: ''
          @ str_exn (AttributeError ('''NoneType' object has no attribute 'get'' @ [CHR 0x27]))),
        [Query [join '', '' (ingredients chicken_request)] 3 [''documents'', ''metadatas'']])"
    by (rule recommend_recipes_raised)
  with b show ?thesis by (simp add: chicken_request_def)
qed

lemma context_loop_short:
  "i \<le> length metas \<Longrightarrow> length metas < i + length docs
     \<Longrightarrow> \<exists>e. context_loop metas i docs acc = Inl e"
proof (induction docs arbitrary: i acc)
  case Nil
  then show ?case by simp
next
  case (Cons doc docs)
  show ?case
  proof (cases "i < length metas")
    case True
    then have "Suc i \<le> length metas" "length metas < Suc i + length docs"
      using Cons.prems by simp_all
    from Cons.IH [OF this] show ?thesis
      using True by (simp split: option.split)
  next
    case False
    then show ?thesis by simp
  qed
qed

lemma build_prompt_short:
  assumes "length metas < length docs"
  shows "\<exists>e. build_prompt ings \<lparr>documents = docs, metadatas = metas\<rparr> cons = Inl e"
proof -
  obtain e where "context_loop metas 0 docs [] = Inl e"
    using context_loop_short [of 0 metas docs "[]"] assms by auto
  then show ?thesis by (simp add: build_prompt_def)
qed

text \<open>
  C10. Prompt construction is outside the guarded region of the generation function. When
  the store answers with fewer metadata entries than documents, prompt construction raises,
  the generation function raises with it without calling the model, and the request ends
  as an HTTPException with status 500 instead of a dictionary with an error description as
  the recommendation.
\<close>

theorem prompt_construction_failure_is_500:
  assumes "collection g [join '', '' (ingredients request)] 3 [''documents'', ''metadatas'']
             = Inr results"
      and "res_documents results = Some (docs # drest)"
      and "res_metadatas results = Some (metas # mrest)"
      and "length metas < length docs"
  shows "\<exists>e. build_prompt (ingredients request) \<lparr>documents = docs, metadatas = metas\<rparr>
                (constraints request) = Inl e
           \<and> format_with_gemini (model g) (ingredients request)
                 \<lparr>documents = docs, metadatas = metas\<rparr> (constraints request) = (Inl e, [])
           \<and> recommend_recipes g request =
                 (HTTPException 500 (''Internal Server Error: '' @ str_exn e),
                  [Query [join '', '' (ingredients request)] 3 [''documents'', ''metadatas'']])"
proof -
  from build_prompt_short [OF assms(4)] obtain e where
    b: "build_prompt (ingredients request) \<lparr>documents = docs, metadatas = metas\<rparr>
          (constraints request) = Inl e" ..
  have f: "format_with_gemini (model g) (ingredients request)
             \<lparr>documents = docs, metadatas = metas\<rparr> (constraints request) = (Inl e, [])"
    using b by (simp add: format_with_gemini_def)
  have "docs \<noteq> []" using assms(4) by auto
  from recommend_try_prompt_raises [OF assms(1,2) this assms(3) b]
  have "recommend_recipes g request =
          (HTTPException 500 (''Internal Server Error: '' @ str_exn e),
           [Query [join '', '' (ingredients request)] 3 [''documents'', ''metadatas'']])"
    by (rule recommend_recipes_raised)
  with b f show ?thesis by (intro exI conjI)
qed

theorem prompt_construction_failure_is_500_witness:
  "collection (globals_with (fixed_store short_metadatas) answering_model)
      [join '', '' (ingredients chicken_request)] 3 [''documents'', ''metadatas'']
     = Inr short_metadatas
   \<and> res_documents short_metadatas = Some [[''Boil it.'', ''Fry it.'']]
   \<and> res_metadatas short_metadatas = Some [[Some soup_meta]]
   \<and> length [Some soup_meta] < length [''Boil it.'', ''Fry it.'']
   \<and> format_with_gemini answering_model [''chicken'']
         \<lparr>documents = [''Boil it.'', ''Fry it.''], metadatas = [Some soup_meta]\<rparr>
         (Some ''no dairy, no oven'') = (Inl (IndexError ''list index out of range''), [])
   \<and> recommend_recipes (globals_with (fixed_store short_metadatas) answering_model)
         chicken_request =
       (HTTPException 500 ''Internal Server Error: list index out of range'',
        [Query [''chicken''] 3 [''documents'', ''metadatas'']])"
proof -
  let ?g = "globals_with (fixed_store short_metadatas) answering_model"
  have q: "collection ?g [join '', '' (ingredients chicken_request)] 3 [''documents'', ''metadatas'']
     = Inr short_metadatas"
    by (simp add: globals_with_def fixed_store_def)
  have d: "res_documents short_metadatas = Some ([''Boil it.'', ''Fry it.''] # [])"
    and m: "res_metadatas short_metadatas = Some ([Some soup_meta] # [])"
    by (simp_all add: short_metadatas_def)
  have l: "length [Some soup_meta] < length [''Boil it.'', ''Fry it.'']" by simp
  have b: "build_prompt (ingredients chicken_request)
             \<lparr>documents = [''Boil it.'', ''Fry it.''], metadatas = [Some soup_meta]\<rparr>
             (constraints chicken_request) = Inl (IndexError ''list index out of range'')"
    by (simp add: build_prompt_def)
  from prompt_construction_failure_is_500 [OF q d m l] obtain e where
    "build_prompt (ingredients chicken_request)
       \<lparr>documents = [''Boil it.'', ''Fry it.''], metadatas = [Some soup_meta]\<rparr>
       (constraints chicken_request) = Inl e"
    and f: "format_with_gemini (model ?g) (ingredients chicken_request)
       \<lparr>documents = [''Boil it.'', ''Fry it.''], metadatas = [Some soup_meta]\<rparr>
       (constraints chicken_request) = (Inl e, [])"
    and r: "recommend_recipes ?g chicken_request =
       (HTTPException 500 (''Internal Server Error: '' @ str_exn e),
        [Query [join '', '' (ingredients chicken_request)] 3 [''documents'', ''metadatas'']])"
    by (elim exE conjE)
  with b have e: "e = IndexError ''list index out of range''" by simp
  have "model ?g = answering_model" by (simp add: globals_with_def)
  with f r e q d m l show ?thesis
    by (simp add: chicken_request_def)
qed

section \<open>The empty ingredient list\<close>

text \<open>
  C9. A request body with the empty ingredient list passes validation. The handler runs on
  it, queries the store with the empty query string, and then follows the same pipeline as
  for any other request: the apology when the store has no document, the success
  dictionary (with the empty list echoed) when the answer is generated.
\<close>

theorem empty_ingredients_not_rejected:
  "RecipeRequest_validate (Given []) cons =
       Inr \<lparr>ingredients = [],
            constraints = (case cons of Omitted \<Rightarrow> Some ''None'' | Given c \<Rightarrow> c)\<rparr>
   \<and> post_recommend g (Given []) cons =
       Inr (recommend_recipes g
              \<lparr>ingredients = [],
               constraints = (case cons of Omitted \<Rightarrow> Some ''None'' | Given c \<Rightarrow> c)\<rparr>)
   \<and> (\<exists>out evs. post_recommend g (Given []) cons = Inr (out, evs)
          \<and> filter is_Query evs = [Query [[]] 3 [''documents'', ''metadatas'']])
   \<and> (\<forall>results.
          collection g [[]] 3 [''documents'', ''metadatas''] = Inr results
          \<and> no_documents (res_documents results)
        \<longrightarrow> post_recommend g (Given []) cons =
              Inr (Returned [(''recommendation'',
                     PyStr ''I'm sorry, I couldn't find any recipes that match those ingredients in my current database.'')],
                   [Query [[]] 3 [''documents'', ''metadatas'']]))
   \<and> (\<forall>results docs drest metas mrest p.
          collection g [[]] 3 [''documents'', ''metadatas''] = Inr results
          \<and> res_documents results = Some (docs # drest) \<and> docs \<noteq> []
          \<and> res_metadatas results = Some (metas # mrest)
          \<and> build_prompt [] \<lparr>documents = docs, metadatas = metas\<rparr>
                (case cons of Omitted \<Rightarrow> Some ''None'' | Given c \<Rightarrow> c) = Inr p
        \<longrightarrow> post_recommend g (Given []) cons =
              Inr (Returned [(''status'', PyStr ''success''),
                             (''ingredients_received'', PyList []),
                             (''constraints_applied'',
                                py_optional (case cons of Omitted \<Rightarrow> Some ''None'' | Given c \<Rightarrow> c)),
                             (''recommendation'', PyStr (generate_guarded (model g) p))],
                   [Query [[]] 3 [''documents'', ''metadatas''], GenerateContent p]))"
proof -
  define request where "request = \<lparr>ingredients = [],
      constraints = (case cons of Omitted \<Rightarrow> Some ''None'' | Given c \<Rightarrow> c)\<rparr>"
  have i: "ingredients request = []" "join '', '' (ingredients request) = []"
    and c: "constraints request = (case cons of Omitted \<Rightarrow> Some ''None'' | Given c \<Rightarrow> c)"
    by (simp_all add: request_def)
  have v: "RecipeRequest_validate (Given []) cons = Inr request"
    by (simp add: RecipeRequest_validate_def request_def)
  then have p: "post_recommend g (Given []) cons = Inr (recommend_recipes g request)"
    by (simp add: post_recommend_def)
  obtain rest where r: "snd (recommend_try g request) =
       Query [join '', '' (ingredients request)] 3 [''documents'', ''metadatas''] # rest"
     and f: "filter is_Query rest = []"
    using recommend_try_events [of g request] by (elim exE conjE)
  have "snd (recommend_recipes g request) = snd (recommend_try g request)"
    by (simp add: recommend_recipes_def split: prod.split sum.split)
  with r f have "filter is_Query (snd (recommend_recipes g request)) =
          [Query [[]] 3 [''documents'', ''metadatas'']]"
    by (simp add: i)
  then have e: "\<exists>out evs. post_recommend g (Given []) cons = Inr (out, evs)
          \<and> filter is_Query evs = [Query [[]] 3 [''documents'', ''metadatas'']]"
    using p by (metis prod.collapse)
  have a: "post_recommend g (Given []) cons =
              Inr (Returned [(''recommendation'',
                     PyStr ''I'm sorry, I couldn't find any recipes that match those ingredients in my current database.'')],
                   [Query [[]] 3 [''documents'', ''metadatas'']])"
    if "collection g [[]] 3 [''documents'', ''metadatas''] = Inr results"
      and "no_documents (res_documents results)" for results
    using recommend_try_no_documents [of g request results] that
    by (simp add: p i recommend_recipes_def apology_def)
  have s: "post_recommend g (Given []) cons =
              Inr (Returned [(''status'', PyStr ''success''),
                             (''ingredients_received'', PyList []),
                             (''constraints_applied'',
                                py_optional (case cons of Omitted \<Rightarrow> Some ''None'' | Given c \<Rightarrow> c)),
                             (''recommendation'', PyStr (generate_guarded (model g) p))],
                   [Query [[]] 3 [''documents'', ''metadatas''], GenerateContent p])"
    if "collection g [[]] 3 [''documents'', ''metadatas''] = Inr results"
      and "res_documents results = Some (docs # drest)" and "docs \<noteq> []"
      and "res_metadatas results = Some (metas # mrest)"
      and "build_prompt [] \<lparr>documents = docs, metadatas = metas\<rparr>
                (case cons of Omitted \<Rightarrow> Some ''None'' | Given c \<Rightarrow> c) = Inr p"
    for results docs drest metas mrest p
    using recommend_try_generated [of g request results docs drest metas mrest p] that
    by (simp add: p i c recommend_recipes_def)
  show ?thesis
  proof (intro conjI allI impI)
    show "RecipeRequest_validate (Given []) cons =
       Inr \<lparr>ingredients = [],
            constraints = (case cons of Omitted \<Rightarrow> Some ''None'' | Given c \<Rightarrow> c)\<rparr>"
      using v by (simp add: request_def)
    show "post_recommend g (Given []) cons =
       Inr (recommend_recipes g
              \<lparr>ingredients = [],
               constraints = (case cons of Omitted \<Rightarrow> Some ''None'' | Given c \<Rightarrow> c)\<rparr>)"
      using p by (simp add: request_def)
    show "\<exists>out evs. post_recommend g (Given []) cons = Inr (out, evs)
          \<and> filter is_Query evs = [Query [[]] 3 [''documents'', ''metadatas'']]"
      by (rule e)
  next
    fix results
    assume "collection g [[]] 3 [''documents'', ''metadatas''] = Inr results
          \<and> no_documents (res_documents results)"
    then show "post_recommend g (Given []) cons =
              Inr (Returned [(''recommendation'',
                     PyStr ''I'm sorry, I couldn't find any recipes that match those ingredients in my current database.'')],
                   [Query [[]] 3 [''documents'', ''metadatas'']])"
      using a by (elim conjE)
  next
    fix results docs drest metas mrest p
    assume "collection g [[]] 3 [''documents'', ''metadatas''] = Inr results
          \<and> res_documents results = Some (docs # drest) \<and> docs \<noteq> []
          \<and> res_metadatas results = Some (metas # mrest)
          \<and> build_prompt [] \<lparr>documents = docs, metadatas = metas\<rparr>
                (case cons of Omitted \<Rightarrow> Some ''None'' | Given c \<Rightarrow> c) = Inr p"
    then show "post_recommend g (Given []) cons =
              Inr (Returned [(''status'', PyStr ''success''),
                             (''ingredients_received'', PyList []),
                             (''constraints_applied'',
                                py_optional (case cons of Omitted \<Rightarrow> Some ''None'' | Given c \<Rightarrow> c)),
                             (''recommendation'', PyStr (generate_guarded (model g) p))],
                   [Query [[]] 3 [''documents'', ''metadatas''], GenerateContent p])"
      using s by (elim conjE)
  qed
qed


theorem empty_ingredients_not_rejected_witness:
  "collection (globals_with (fixed_store no_match_results) answering_model)
       [[]] 3 [''documents'', ''metadatas''] = Inr no_match_results
   \<and> no_documents (res_documents no_match_results)
   \<and> post_recommend (globals_with (fixed_store no_match_results) answering_model)
         (Given []) Omitted =
       Inr (Returned [(''recommendation'',
              PyStr ''I'm sorry, I couldn't find any recipes that match those ingredients in my current database.'')],
            [Query [[]] 3 [''documents'', ''metadatas'']])
   \<and> collection (globals_with (fixed_store two_recipes) answering_model)
       [[]] 3 [''documents'', ''metadatas''] = Inr two_recipes
   \<and> post_recommend (globals_with (fixed_store two_recipes) answering_model)
         (Given []) Omitted =
       Inr (Returned [(''status'', PyStr ''success''),
                      (''ingredients_received'', PyList []),
                      (''constraints_applied'', PyStr ''None''),
                      (''recommendation'', PyStr ''Try the soup.'')],
            [Query [[]] 3 [''documents'', ''metadatas''],
             GenerateContent
               (prompt_head [] (Some ''None'')
                @ option_section 0 soup_meta ''Boil it.'' @ option_section 1 Map.empty ''Fry it.'')])"
proof -
  let ?g0 = "globals_with (fixed_store no_match_results) answering_model"
  let ?g2 = "globals_with (fixed_store two_recipes) answering_model"
  let ?p = "prompt_head [] (Some ''None'')
                @ option_section 0 soup_meta ''Boil it.'' @ option_section 1 Map.empty ''Fry it.''"
  have q0: "collection ?g0 [[]] 3 [''documents'', ''metadatas''] = Inr no_match_results"
    and q2: "collection ?g2 [[]] 3 [''documents'', ''metadatas''] = Inr two_recipes"
    by (simp_all add: globals_with_def fixed_store_def)
  have n: "no_documents (res_documents no_match_results)"
    by (simp add: no_match_results_def)
  have d: "res_documents two_recipes = Some ([''Boil it.'', ''Fry it.''] # [])"
    and m: "res_metadatas two_recipes = Some ([Some soup_meta, Some Map.empty] # [])"
    by (simp_all add: two_recipes_def)
  have b: "build_prompt [] \<lparr>documents = [''Boil it.'', ''Fry it.''],
                           metadatas = [Some soup_meta, Some Map.empty]\<rparr>
             (case Omitted of Omitted \<Rightarrow> Some ''None'' | Given c \<Rightarrow> c) = Inr ?p"
    by (simp add: two_recipes_prompt)
  have r0: "post_recommend ?g0 (Given []) Omitted =
              Inr (Returned [(''recommendation'',
                     PyStr ''I'm sorry, I couldn't find any recipes that match those ingredients in my current database.'')],
                   [Query [[]] 3 [''documents'', ''metadatas'']])"
    by (rule empty_ingredients_not_rejected
          [of Omitted ?g0, THEN conjunct2, THEN conjunct2, THEN conjunct2, THEN conjunct1,
           rule_format, OF conjI [OF q0 n]])
  have e: "[''Boil it.'', ''Fry it.''] \<noteq> ([] :: string list)" by simp
  have "post_recommend ?g2 (Given []) Omitted =
              Inr (Returned [(''status'', PyStr ''success''),
                             (''ingredients_received'', PyList []),
                             (''constraints_applied'',
                                py_optional (case Omitted of Omitted \<Rightarrow> Some ''None'' | Given c \<Rightarrow> c)),
                             (''recommendation'', PyStr (generate_guarded (model ?g2) ?p))],
                   [Query [[]] 3 [''documents'', ''metadatas''], GenerateContent ?p])"
    by (rule empty_ingredients_not_rejected
          [of Omitted ?g2, THEN conjunct2, THEN conjunct2, THEN conjunct2, THEN conjunct2,
           rule_format, OF conjI [OF q2 conjI [OF d conjI [OF e conjI [OF m b]]]]])
  then have r2: "post_recommend ?g2 (Given []) Omitted =
       Inr (Returned [(''status'', PyStr ''success''),
                      (''ingredients_received'', PyList []),
                      (''constraints_applied'', PyStr ''None''),
                      (''recommendation'', PyStr ''Try the soup.'')],
            [Query [[]] 3 [''documents'', ''metadatas''], GenerateContent ?p])"
    by (simp add: globals_with_def answering_model_text)
  from q0 n r0 q2 r2 show ?thesis by (intro conjI)
qed

end
